theory Spec2Isabelle
  imports Main "HOL-Library.Word" "HOL-Library.Signed_Division"
begin

unbundle bit_operations_syntax

section \<open>Shared data: errors, XML tokens, token writers\<close>

text \<open>
  The stream-level conditions of package \<open>stream\<close> that \<open>bind.go\<close> uses, the stanza
  error structure of package \<open>stanza\<close>, and the values of Go's \<open>error\<close> interface that
  can travel through the functions modelled here. A \<open>stanza.Error\<close> held by value and
  one held by pointer are different dynamic types, and the type assertion of
  \<open>bind.go\<close> line 142 tells them apart, so they are different constructors.
  \<open>SyntaxError\<close> is the \<open>*xml.SyntaxError\<close> of \<open>encoding/xml\<close> with its message.
\<close>

datatype stream_error = BadFormat | UndefinedCondition

record stanza_Error =
  Error_Type :: string
  Condition :: string
  Text :: string

definition BadRequest :: string where
  "BadRequest = ''bad-request''"

datatype error =
    StreamError stream_error
  | StanzaError stanza_Error
  | StanzaErrorPtr "stanza_Error option"
  | SyntaxError string
  | EOF
  | ErrUnexpectedEOF
  | OtherError string

text \<open>A panic carries a value; a function that can panic returns an \<open>outcome\<close>.\<close>

datatype panic_value =
    PanicError error
  | PanicString string
  | PanicTypeAssertion
  | PanicMakeSlice
  | PanicSliceBounds
  | PanicNilDereference

datatype 'a outcome = Return 'a | Panic panic_value

text \<open>Values of the empty interface that the Parse phase hands to Negotiate.\<close>

datatype iface = INil | IBool bool | IOther string

text \<open>\<open>encoding/xml\<close>: names, attributes, start elements and tokens.\<close>

record xml_Name =
  Space :: string
  Local :: string

record xml_Attr =
  Attr_Name :: xml_Name
  Attr_Value :: string

record xml_StartElement =
  Start_Name :: xml_Name
  Start_Attr :: "xml_Attr list"

datatype xml_Token =
    StartElement xml_StartElement
  | EndElement xml_Name
  | CharData string
  | OtherToken string

definition End :: "xml_StartElement \<Rightarrow> xml_Token" where
  "End start = EndElement (Start_Name start)"

text \<open>
  A token writer (\<open>*xml.Encoder\<close> in \<open>ibr2.go\<close>, \<open>xmlstream.TokenWriter\<close> in \<open>bind.go\<close>).
  The tokens accepted so far are recorded in \<open>written\<close>. The writer belongs to the
  environment, so when it fails is part of its state: \<open>fail_after = Some (n, e)\<close> means
  that \<open>n\<close> more calls succeed and every later call returns \<open>e\<close>; \<open>None\<close> means that no
  call fails. \<open>EncodeToken\<close> and \<open>Flush\<close> each count as one call.
\<close>

record token_writer =
  written :: "xml_Token list"
  fail_after :: "(nat \<times> error) option"

definition EncodeToken :: "token_writer \<Rightarrow> xml_Token \<Rightarrow> error option \<times> token_writer" where
  "EncodeToken e t =
     (case fail_after e of
        None \<Rightarrow> (None, e\<lparr>written := written e @ [t]\<rparr>)
      | Some (0, err) \<Rightarrow> (Some err, e)
      | Some (Suc n, err) \<Rightarrow> (None, e\<lparr>written := written e @ [t], fail_after := Some (n, err)\<rparr>))"

definition Flush :: "token_writer \<Rightarrow> error option \<times> token_writer" where
  "Flush e =
     (case fail_after e of
        None \<Rightarrow> (None, e)
      | Some (0, err) \<Rightarrow> (Some err, e)
      | Some (Suc n, err) \<Rightarrow> (None, e\<lparr>fail_after := Some (n, err)\<rparr>))"

section \<open>Session state\<close>

text \<open>
  Modelled from the spec: the declaration of \<open>SessionState\<close> and of its bits is not
  part of the sources. The spec describes a bitmask with the named bits Secure, Authn,
  Ready and Received; they are taken as four distinct single bits of a byte.
\<close>

type_synonym SessionState = "8 word"

definition Secure :: SessionState where "Secure = 1"
definition Authn :: SessionState where "Authn = 2"
definition Ready :: SessionState where "Ready = 4"
definition Received :: SessionState where "Received = 8"

section \<open>Package ibr2: in-band registration and recovery\<close>

text \<open>
  Of a \<open>Challenge\<close> the functions of \<open>ibr2.go\<close> read the field \<open>Type\<close> only.
\<close>

record Challenge =
  Challenge_Type :: string

definition challengeStart :: xml_StartElement where
  "challengeStart = \<lparr>Start_Name = \<lparr>Space = [], Local = ''challenge''\<rparr>, Start_Attr = []\<rparr>"

text \<open>
  The loop of \<open>listFunc\<close> (lines 34 to 51). The Go map \<open>seen\<close> has values of the empty
  struct type, so it is the set of its keys. The result is the error of the first
  failing \<open>EncodeToken\<close>, if any, and the encoder.
\<close>

fun list_challenges ::
  "token_writer \<Rightarrow> string set \<Rightarrow> Challenge list \<Rightarrow> error option \<times> token_writer" where
  "list_challenges e seen [] = (None, e)"
| "list_challenges e seen (c # cs) =
     (if Challenge_Type c \<in> seen then list_challenges e seen cs
      else
        (case EncodeToken e (StartElement challengeStart) of
           (Some err, e1) \<Rightarrow> (Some err, e1)
         | (None, e1) \<Rightarrow>
        (case EncodeToken e1 (CharData (Challenge_Type c)) of
           (Some err, e2) \<Rightarrow> (Some err, e2)
         | (None, e2) \<Rightarrow>
        (case EncodeToken e2 (End challengeStart) of
           (Some err, e3) \<Rightarrow> (Some err, e3)
         | (None, e3) \<Rightarrow> list_challenges e3 (insert (Challenge_Type c) seen) cs))))"

text \<open>
  \<open>listFunc\<close> (lines 26 to 58). The named result \<open>req\<close> is never assigned, so it is
  \<open>False\<close> on every path.
\<close>

definition listFunc ::
  "Challenge list \<Rightarrow> token_writer \<Rightarrow> xml_StartElement \<Rightarrow> (bool \<times> error option) \<times> token_writer" where
  "listFunc challenges e start =
     (case EncodeToken e (StartElement start) of
        (Some err, e1) \<Rightarrow> ((False, Some err), e1)
      | (None, e1) \<Rightarrow>
     (case list_challenges e1 {} challenges of
        (Some err, e2) \<Rightarrow> ((False, Some err), e2)
      | (None, e2) \<Rightarrow>
     (case EncodeToken e2 (End start) of
        (Some err, e3) \<Rightarrow> ((False, Some err), e3)
      | (None, e3) \<Rightarrow>
     (case Flush e3 of (err, e4) \<Rightarrow> ((False, err), e4)))))"

text \<open>
  \<open>parseFunc\<close> (lines 60 to 86). The decoder is used for one call,
  \<open>d.DecodeElement(&parsed, start)\<close>, whose outcome is an error or the decoded slice
  \<open>parsed.Challenges\<close>; the decoder \<open>d\<close> is modelled by that outcome as a function of
  the start element. The Go map \<open>m\<close> is again the set of its keys, filled by the two loops
  in order, and \<open>len(m)\<close> is its cardinality.
\<close>

definition parseFunc ::
  "Challenge list \<Rightarrow> (xml_StartElement \<Rightarrow> error + string list) \<Rightarrow> xml_StartElement
     \<Rightarrow> bool \<times> iface \<times> error option" where
  "parseFunc challenges d start =
     (case d start of
        Inl err \<Rightarrow> (False, IBool False, Some err)
      | Inr parsed_Challenges \<Rightarrow>
          (let m = fold (\<lambda>c m. insert (Challenge_Type c) m) challenges {};
               m = fold (\<lambda>c m. insert c m) parsed_Challenges m
           in (False, IBool (card m \<le> length challenges), None)))"


section \<open>Sessions\<close>

text \<open>
  Modelled from the spec: package \<open>jid\<close> is not part of the sources. An address has a
  local part, a domain part and a resource part; the full address is the bare address
  followed by the resource. A \<open>*jid.JID\<close> is a \<open>JID option\<close>, with \<open>None\<close> for \<open>nil\<close>,
  and the resource preference read from an absent address is the empty string.
\<close>

record JID =
  localpart :: string
  domainpart :: string
  resourcepart :: string

definition JID_String :: "JID \<Rightarrow> string" where
  "JID_String j =
     (if localpart j = [] then [] else localpart j @ ''@'') @ domainpart j @
     (if resourcepart j = [] then [] else ''/'' @ resourcepart j)"

definition Resourcepart :: "JID option \<Rightarrow> string" where
  "Resourcepart p = (case p of None \<Rightarrow> [] | Some j \<Rightarrow> resourcepart j)"

text \<open>
  The session as the functions of \<open>bind.go\<close> and \<open>ibr2.go\<close> use it: its state bits
  (\<open>State()\<close>), the field \<open>origin\<close>, the address returned by \<open>RemoteAddr()\<close>, the tokens
  still to be read from the peer (a read either fails or yields a token; reading past
  the end is \<open>io.EOF\<close>), and the writing side of the stream.
\<close>

record Session =
  State :: SessionState
  origin :: "JID option"
  RemoteAddr :: "JID option"
  incoming :: "(error + xml_Token) list"
  outgoing :: token_writer

definition Session_Token :: "Session \<Rightarrow> (error + xml_Token) \<times> Session" where
  "Session_Token s =
     (case incoming s of
        [] \<Rightarrow> (Inl EOF, s)
      | r # rest \<Rightarrow> (r, s\<lparr>incoming := rest\<rparr>))"

text \<open>
  \<open>negotiateFunc\<close> of \<open>ibr2.go\<close> (lines 88 to 102). The type assertion
  \<open>supported.(bool)\<close> is evaluated only when \<open>server\<close> is false, and panics on a value
  that is not a \<open>bool\<close>. The result is the triple of state mask, replacement
  transport and error; the function does not touch the session.
\<close>

datatype ReadWriter = ReadWriter

type_synonym negotiate_result = "SessionState \<times> ReadWriter option \<times> error option"

definition negotiateFunc :: "Challenge list \<Rightarrow> Session \<Rightarrow> iface \<Rightarrow> negotiate_result outcome" where
  "negotiateFunc challenges session supported =
     (let server = (State session AND Received = Received) in
      if server then Panic (PanicString ''not yet supported'')
      else
        (case supported of
           IBool b \<Rightarrow>
             if \<not> b then Return (0, None, None)
             else Panic (PanicString ''not yet supported'')
         | _ \<Rightarrow> Panic PanicTypeAssertion))"

section \<open>Package internal: random identifiers\<close>

text \<open>
  The entropy source \<open>crypto/rand\<close>: either it is broken and every read from it
  fails, or it holds a pool of bytes. \<open>rand.Read(b)\<close> is \<open>io.ReadFull\<close> on the source:
  it fills the whole buffer or fails. An empty buffer is filled without touching the
  source; a pool that is too short for the buffer is a failed read, \<open>io.EOF\<close> when
  the pool is empty and \<open>io.ErrUnexpectedEOF\<close> otherwise.
\<close>

datatype entropy = Broken error | Pool "8 word list"

definition rand_Read :: "nat \<Rightarrow> entropy \<Rightarrow> error + (8 word list \<times> entropy)" where
  "rand_Read k src =
     (if k = 0 then Inr ([], src)
      else
        (case src of
           Broken err \<Rightarrow> Inl err
         | Pool bs \<Rightarrow>
             if length bs < k then Inl (if bs = [] then EOF else ErrUnexpectedEOF)
             else Inr (take k bs, Pool (drop k bs))))"

text \<open>\<open>fmt.Sprintf("%x", b)\<close> on a byte slice: two lowercase hexadecimal digits per byte.\<close>

definition hexdigit :: "nat \<Rightarrow> char" where
  "hexdigit d = ''0123456789abcdef'' ! (d mod 16)"

definition hex_byte :: "8 word \<Rightarrow> string" where
  "hex_byte b = [hexdigit (unat b div 16), hexdigit (unat b mod 16)]"

definition Sprintf_x :: "8 word list \<Rightarrow> string" where
  "Sprintf_x b = concat (map hex_byte b)"

text \<open>
  \<open>RandomID\<close> (lines 238 to 245). Go's \<open>/\<close> truncates towards zero (\<open>sdiv\<close>) and \<open>&\<close>
  works on the two's complement representation. \<open>make\<close> panics on a negative length,
  and the slice expression \<open>[:n]\<close> panics unless \<open>0 \<le> n \<le> len\<close>. The length \<open>n\<close> is an
  unbounded integer here; for the values of a Go \<open>int\<close> the sum \<open>n/2 + (n&1)\<close> does not
  overflow.
\<close>

definition RandomID :: "int \<Rightarrow> entropy \<Rightarrow> (string \<times> entropy) outcome" where
  "RandomID n src =
     (let k = n sdiv 2 + (n AND 1) in
      if k < 0 then Panic PanicMakeSlice
      else
        (case rand_Read (nat k) src of
           Inl err \<Rightarrow> Panic (PanicError err)
         | Inr (b, src') \<Rightarrow>
             (let s = Sprintf_x b in
              if n < 0 \<or> int (length s) < n then Panic PanicSliceBounds
              else Return (take (nat n) s, src'))))"

section \<open>Resource binding\<close>

datatype IQType = GetIQ | SetIQ | ResultIQ | ErrorIQ

record stanza_IQ =
  ID :: string
  To :: "JID option"
  From :: "JID option"
  IQ_Type :: IQType

record bindPayload =
  Resource :: string
  Bind_JID :: "JID option"

record bindIQ =
  IQ :: stanza_IQ
  Bind :: bindPayload
  Err :: "stanza_Error option"

text \<open>
  What \<open>bind.go\<close> calls and the sources do not contain, taken as parameters:
  \<^item> \<open>stanza.WrapIQ(to, typ, payload)\<close>, a function of its three arguments;
  \<^item> the \<open>TokenReader\<close> method of \<open>stanza.Error\<close>;
  \<^item> \<open>DecodeElement\<close> of \<open>encoding/xml\<close> into a \<open>bindIQ\<close>: from the start element and
    the tokens that follow it, an error or the decoded structure, and the tokens left;
  \<^item> \<open>WithResource\<close> of package \<open>jid\<close>;
  \<^item> the length of the identifiers that \<open>internal.RandomID()\<close> draws.
\<close>

record deps =
  WrapIQ :: "JID option \<Rightarrow> IQType \<Rightarrow> xml_Token list \<Rightarrow> xml_Token list"
  Error_TokenReader :: "stanza_Error \<Rightarrow> xml_Token list"
  DecodeElement ::
    "xml_StartElement \<Rightarrow> (error + xml_Token) list \<Rightarrow> (error + bindIQ) \<times> (error + xml_Token) list"
  WithResource :: "JID option \<Rightarrow> string \<Rightarrow> error + JID option"
  IDLen :: int

text \<open>
  Modelled from the spec: \<open>internal.GetAttr\<close> and the constant \<open>ns.Client\<close> are not part
  of the sources. The spec has the server extract the \<open>id\<close> of the request and expect a
  client-namespace IQ: \<open>GetAttr\<close> returns the value of the first attribute with the
  given local name, and the empty string when there is none.
\<close>

fun GetAttr :: "xml_Attr list \<Rightarrow> string \<Rightarrow> string" where
  "GetAttr [] local = []"
| "GetAttr (a # attr) local =
     (if Local (Attr_Name a) = local then Attr_Value a else GetAttr attr local)"

definition ns_Client :: string where
  "ns_Client = ''jabber:client''"

text \<open>
  \<open>xmlstream.Wrap\<close> puts a token stream between a start element and its end element;
  \<open>xmlstream.Copy\<close> encodes the tokens one by one and stops at the first error.
\<close>

definition xmlstream_Wrap :: "xml_Token list \<Rightarrow> xml_StartElement \<Rightarrow> xml_Token list" where
  "xmlstream_Wrap r start = StartElement start # r @ [End start]"

fun xmlstream_Copy :: "token_writer \<Rightarrow> xml_Token list \<Rightarrow> error option \<times> token_writer" where
  "xmlstream_Copy w [] = (None, w)"
| "xmlstream_Copy w (t # ts) =
     (case EncodeToken w t of
        (Some err, w1) \<Rightarrow> (Some err, w1)
      | (None, w1) \<Rightarrow> xmlstream_Copy w1 ts)"

text \<open>\<open>bindPayload.TokenReader\<close> (lines 70 to 86).\<close>

definition bindPayload_TokenReader :: "bindPayload \<Rightarrow> xml_Token list" where
  "bindPayload_TokenReader bp =
     (case Bind_JID bp of
        Some j \<Rightarrow>
          xmlstream_Wrap [CharData (JID_String j)]
            \<lparr>Start_Name = \<lparr>Space = [], Local = ''jid''\<rparr>, Start_Attr = []\<rparr>
      | None \<Rightarrow>
          xmlstream_Wrap [CharData (Resource bp)]
            \<lparr>Start_Name = \<lparr>Space = [], Local = ''resource''\<rparr>, Start_Attr = []\<rparr>)"

text \<open>\<open>bindIQ.TokenReader\<close> (lines 53 to 59) and \<open>bindIQ.WriteXML\<close> (lines 61 to 63).\<close>

definition bindIQ_TokenReader :: "deps \<Rightarrow> bindIQ \<Rightarrow> xml_Token list" where
  "bindIQ_TokenReader dp biq =
     (case Err biq of
        Some e \<Rightarrow> WrapIQ dp (To (IQ biq)) (IQ_Type (IQ biq)) (Error_TokenReader dp e)
      | None \<Rightarrow> WrapIQ dp (To (IQ biq)) (IQ_Type (IQ biq)) (bindPayload_TokenReader (Bind biq)))"

definition bindIQ_WriteXML :: "deps \<Rightarrow> bindIQ \<Rightarrow> Session \<Rightarrow> error option \<times> Session" where
  "bindIQ_WriteXML dp biq s =
     (case xmlstream_Copy (outgoing s) (bindIQ_TokenReader dp biq) of
        (err, w) \<Rightarrow> (err, s\<lparr>outgoing := w\<rparr>))"

text \<open>
  \<open>Token\<close> of the decoder \<open>d\<close> that line 111 builds with \<open>xml.NewTokenDecoder(session)\<close>.
  Such a decoder takes its raw tokens from the session and then does what every
  \<open>xml.Decoder\<close> does with a token: a start element has the name space declarations among
  its attributes recorded and its name and the names of its attributes translated, and
  is pushed on the decoder's stack; an end element has to match the start element on
  top of the stack, and is a syntax error otherwise; other tokens pass. \<open>Negotiate\<close>
  calls \<open>d.Token()\<close> once, on the new decoder, whose stack and name space table are
  empty and whose default name space is the empty string: an end element read by that
  call is never matched.
\<close>

definition xmlnsPrefix :: string where "xmlnsPrefix = ''xmlns''"
definition xmlPrefix :: string where "xmlPrefix = ''xml''"
definition xmlURL :: string where "xmlURL = ''http://www.w3.org/XML/1998/namespace''"

definition record_ns :: "xml_Attr \<Rightarrow> (string \<rightharpoonup> string) \<Rightarrow> (string \<rightharpoonup> string)" where
  "record_ns a ns =
     (let ns1 = (if Space (Attr_Name a) = xmlnsPrefix
                 then ns(Local (Attr_Name a) \<mapsto> Attr_Value a) else ns)
      in if Space (Attr_Name a) = [] \<and> Local (Attr_Name a) = xmlnsPrefix
         then ns1([] \<mapsto> Attr_Value a) else ns1)"

definition translate_Space :: "(string \<rightharpoonup> string) \<Rightarrow> xml_Name \<Rightarrow> xml_Name" where
  "translate_Space ns n =
     (case ns (Space n) of
        Some v \<Rightarrow> n\<lparr>Space := v\<rparr>
      | None \<Rightarrow> if Space n = [] then n\<lparr>Space := []\<rparr> else n)"

definition translate :: "(string \<rightharpoonup> string) \<Rightarrow> xml_Name \<Rightarrow> bool \<Rightarrow> xml_Name" where
  "translate ns n isElementName =
     (if Space n = xmlnsPrefix then n
      else if Space n = [] \<and> \<not> isElementName then n
      else if Space n = xmlPrefix then translate_Space ns (n\<lparr>Space := xmlURL\<rparr>)
      else if Space n = [] \<and> Local n = xmlnsPrefix then n
      else translate_Space ns n)"

definition Decoder_StartElement :: "xml_StartElement \<Rightarrow> xml_StartElement" where
  "Decoder_StartElement t1 =
     (let ns = fold record_ns (Start_Attr t1) Map.empty
      in \<lparr>Start_Name = translate ns (Start_Name t1) True,
          Start_Attr =
            map (\<lambda>a. a\<lparr>Attr_Name := translate ns (Attr_Name a) False\<rparr>) (Start_Attr t1)\<rparr>)"

definition Decoder_Token :: "Session \<Rightarrow> (error + xml_Token) \<times> Session" where
  "Decoder_Token s =
     (case Session_Token s of
        (Inl err, s1) \<Rightarrow> (Inl err, s1)
      | (Inr t, s1) \<Rightarrow>
          (case t of
             StartElement t1 \<Rightarrow> (Inr (StartElement (Decoder_StartElement t1)), s1)
           | EndElement name \<Rightarrow>
               (Inl (SyntaxError (''unexpected end element </'' @ Local name @ ''>'')), s1)
           | _ \<Rightarrow> (Inr t, s1)))"

text \<open>
  Reading one top-level element that has to be a client-namespace IQ and decoding it.
  The source has this block twice, word for word: lines 116 to 132 in the server branch
  and lines 191 to 207 in the client branch.
\<close>

definition read_iq :: "deps \<Rightarrow> Session \<Rightarrow> (error + xml_StartElement \<times> bindIQ) \<times> Session" where
  "read_iq dp s =
     (case Decoder_Token s of
        (Inl err, s1) \<Rightarrow> (Inl err, s1)
      | (Inr tok, s1) \<Rightarrow>
          (case tok of
             StartElement start \<Rightarrow>
               if Start_Name start = \<lparr>Space = ns_Client, Local = ''iq''\<rparr> then
                 (case DecodeElement dp start (incoming s1) of
                    (Inl err, rest) \<Rightarrow> (Inl err, s1\<lparr>incoming := rest\<rparr>)
                  | (Inr biq, rest) \<Rightarrow> (Inr (start, biq), s1\<lparr>incoming := rest\<rparr>))
               else (Inl (StreamError BadFormat), s1)
           | _ \<Rightarrow> (Inl (StreamError BadFormat), s1)))"

text \<open>
  The resource allocation of the server branch (lines 136 to 141): the configured
  function, or a random resource added to the remote address.
\<close>

type_synonym server_func = "JID option \<Rightarrow> string \<Rightarrow> error + JID option"

definition allocate ::
  "deps \<Rightarrow> server_func option \<Rightarrow> entropy \<Rightarrow> Session \<Rightarrow> bindIQ
     \<Rightarrow> ((error + JID option) \<times> entropy) outcome" where
  "allocate dp server src s resReq =
     (case server of
        Some f \<Rightarrow> Return (f (RemoteAddr s) (Resource (Bind resReq)), src)
      | None \<Rightarrow>
          (case RandomID (IDLen dp) src of
             Panic p \<Rightarrow> Panic p
           | Return (rid, src') \<Rightarrow> Return (WithResource dp (RemoteAddr s) rid, src')))"

text \<open>
  The server branch of \<open>Negotiate\<close> (lines 115 to 166). The type assertion
  \<open>err.(stanza.Error)\<close> holds for a stanza error held by value only. The result \<open>mask\<close>
  is never assigned in this branch.
\<close>

definition negotiate_server ::
  "deps \<Rightarrow> server_func option \<Rightarrow> entropy \<Rightarrow> Session
     \<Rightarrow> (negotiate_result \<times> Session \<times> entropy) outcome" where
  "negotiate_server dp server src session =
     (case read_iq dp session of
        (Inl err, s1) \<Rightarrow> Return ((0, None, Some err), s1, src)
      | (Inr (start, resReq), s1) \<Rightarrow>
          (let iqid = GetAttr (Start_Attr start) ''id'' in
           case allocate dp server src s1 resReq of
             Panic p \<Rightarrow> Panic p
           | Return (a, src') \<Rightarrow>
               (let resp = \<lparr>IQ = \<lparr>ID = iqid, To = From (IQ resReq), From = To (IQ resReq),
                                  IQ_Type = ResultIQ\<rparr>,
                           Bind = \<lparr>Resource = [], Bind_JID = None\<rparr>, Err = None\<rparr> in
                case a of
                  Inl (StanzaError stanzaErr) \<Rightarrow>
                    (case bindIQ_WriteXML dp (resp\<lparr>Err := Some stanzaErr\<rparr>) s1 of
                       (err, s2) \<Rightarrow> Return ((0, None, err), s2, src'))
                | Inl err \<Rightarrow> Return ((0, None, Some err), s1, src')
                | Inr j \<Rightarrow>
                    (case bindIQ_WriteXML dp
                            (resp\<lparr>Bind := \<lparr>Resource = [], Bind_JID = j\<rparr>\<rparr>) s1 of
                       (err, s2) \<Rightarrow> Return ((0, None, err), s2, src')))))"

text \<open>The request that the client sends (lines 170 to 178).\<close>

definition bind_request :: "string \<Rightarrow> Session \<Rightarrow> bindIQ" where
  "bind_request reqID session =
     \<lparr>IQ = \<lparr>ID = reqID, To = None, From = None, IQ_Type = SetIQ\<rparr>,
      Bind = \<lparr>Resource = Resourcepart (origin session), Bind_JID = None\<rparr>,
      Err = None\<rparr>"

text \<open>The client branch of \<open>Negotiate\<close> (lines 168 to 219).\<close>

definition negotiate_client ::
  "deps \<Rightarrow> entropy \<Rightarrow> Session \<Rightarrow> (negotiate_result \<times> Session \<times> entropy) outcome" where
  "negotiate_client dp src session =
     (case RandomID (IDLen dp) src of
        Panic p \<Rightarrow> Panic p
      | Return (reqID, src') \<Rightarrow>
          (case bindIQ_WriteXML dp (bind_request reqID session) session of
             (Some err, s1) \<Rightarrow> Return ((0, None, Some err), s1, src')
           | (None, s1) \<Rightarrow>
               (case read_iq dp s1 of
                  (Inl err, s2) \<Rightarrow> Return ((0, None, Some err), s2, src')
                | (Inr (start, resp), s2) \<Rightarrow>
                    if ID (IQ resp) \<noteq> reqID then
                      Return ((0, None, Some (StreamError UndefinedCondition)), s2, src')
                    else if IQ_Type (IQ resp) = ResultIQ then
                      Return ((Ready, None, None), s2\<lparr>origin := Bind_JID (Bind resp)\<rparr>, src')
                    else if IQ_Type (IQ resp) = ErrorIQ then
                      Return ((0, None, Some (StanzaErrorPtr (Err resp))), s2, src')
                    else
                      Return ((0, None,
                               Some (StanzaError
                                 \<lparr>Error_Type = [], Condition = BadRequest, Text = []\<rparr>)),
                              s2, src'))))"

text \<open>
  \<open>Negotiate\<close> of the feature returned by \<open>bind(server)\<close> (lines 110 to 220): the branch
  is chosen by the \<open>Received\<close> bit of the session state. The argument \<open>data\<close> is not
  used.
\<close>

definition bind_Negotiate ::
  "deps \<Rightarrow> server_func option \<Rightarrow> entropy \<Rightarrow> Session \<Rightarrow> iface
     \<Rightarrow> (negotiate_result \<times> Session \<times> entropy) outcome" where
  "bind_Negotiate dp server src session data =
     (if State session AND Received = Received then negotiate_server dp server src session
      else negotiate_client dp src session)"

section \<open>Vocabulary of the statements\<close>

text \<open>
  First-seen order: the elements of a list that are not in \<open>seen\<close>, each at its first
  occurrence. The element that \<open>listFunc\<close> writes for one challenge type.
\<close>

fun first_seen :: "'a set \<Rightarrow> 'a list \<Rightarrow> 'a list" where
  "first_seen seen [] = []"
| "first_seen seen (x # xs) =
     (if x \<in> seen then first_seen seen xs else x # first_seen (insert x seen) xs)"

definition challenge_element :: "string \<Rightarrow> xml_Token list" where
  "challenge_element t = [StartElement challengeStart, CharData t, End challengeStart]"

text \<open>
  Concrete instances of the parameters and of the session, on which the model is
  evaluated: a \<open>WrapIQ\<close> that writes an \<open>iq\<close> element with the attributes its arguments
  determine, a decoder that reads \<open>id\<close> and \<open>type\<close> from the start element, skips to
  the end of the element and fills in a given payload, and a session of
  \<open>user@example.com\<close> with a stream that never fails to write.
\<close>

definition IQType_String :: "IQType \<Rightarrow> string" where
  "IQType_String t =
     (case t of GetIQ \<Rightarrow> ''get'' | SetIQ \<Rightarrow> ''set'' | ResultIQ \<Rightarrow> ''result'' | ErrorIQ \<Rightarrow> ''error'')"

definition sample_WrapIQ :: "JID option \<Rightarrow> IQType \<Rightarrow> xml_Token list \<Rightarrow> xml_Token list" where
  "sample_WrapIQ to typ payload =
     xmlstream_Wrap payload
       \<lparr>Start_Name = \<lparr>Space = [], Local = ''iq''\<rparr>,
        Start_Attr =
          \<lparr>Attr_Name = \<lparr>Space = [], Local = ''type''\<rparr>, Attr_Value = IQType_String typ\<rparr> #
          (case to of
             None \<Rightarrow> []
           | Some j \<Rightarrow> [\<lparr>Attr_Name = \<lparr>Space = [], Local = ''to''\<rparr>, Attr_Value = JID_String j\<rparr>])\<rparr>"

definition sample_DecodeElement ::
  "bindPayload \<Rightarrow> stanza_Error option \<Rightarrow> xml_StartElement \<Rightarrow> (error + xml_Token) list
     \<Rightarrow> (error + bindIQ) \<times> (error + xml_Token) list" where
  "sample_DecodeElement payload err start rest =
     (let typ = GetAttr (Start_Attr start) ''type'';
          left = drop 1 (dropWhile (\<lambda>r. r \<noteq> Inr (End start)) rest)
      in if typ \<notin> set [''get'', ''set'', ''result'', ''error''] then
           (Inl (OtherError ''bad iq type''), left)
         else
           (Inr \<lparr>IQ = \<lparr>ID = GetAttr (Start_Attr start) ''id'', To = None, From = None,
                       IQ_Type = (if typ = ''get'' then GetIQ else if typ = ''set'' then SetIQ
                                  else if typ = ''result'' then ResultIQ else ErrorIQ)\<rparr>,
                 Bind = payload, Err = err\<rparr>, left))"

definition sample_deps :: "bindPayload \<Rightarrow> stanza_Error option \<Rightarrow> deps" where
  "sample_deps payload err =
     \<lparr>WrapIQ = sample_WrapIQ,
      Error_TokenReader = (\<lambda>e.
        xmlstream_Wrap [CharData (Condition e)]
          \<lparr>Start_Name = \<lparr>Space = [], Local = ''error''\<rparr>, Start_Attr = []\<rparr>),
      DecodeElement = sample_DecodeElement payload err,
      WithResource = (\<lambda>j r.
        case j of None \<Rightarrow> Inl (OtherError ''no address'')
        | Some a \<Rightarrow> Inr (Some (a\<lparr>resourcepart := r\<rparr>))),
      IDLen = 4\<rparr>"

definition iq_start :: "string \<Rightarrow> string \<Rightarrow> xml_StartElement" where
  "iq_start i typ =
     \<lparr>Start_Name = \<lparr>Space = ns_Client, Local = ''iq''\<rparr>,
      Start_Attr = [\<lparr>Attr_Name = \<lparr>Space = [], Local = ''type''\<rparr>, Attr_Value = typ\<rparr>,
                    \<lparr>Attr_Name = \<lparr>Space = [], Local = ''id''\<rparr>, Attr_Value = i\<rparr>]\<rparr>"

definition sample_session :: "SessionState \<Rightarrow> xml_Token list \<Rightarrow> Session" where
  "sample_session st toks =
     \<lparr>State = st,
      origin = Some \<lparr>localpart = ''user'', domainpart = ''example.com'', resourcepart = ''home''\<rparr>,
      RemoteAddr = Some \<lparr>localpart = ''user'', domainpart = ''example.com'', resourcepart = []\<rparr>,
      incoming = map Inr toks,
      outgoing = \<lparr>written = [], fail_after = None\<rparr>\<rparr>"

definition jid_element :: "JID \<Rightarrow> xml_Token list" where
  "jid_element j =
     [StartElement \<lparr>Start_Name = \<lparr>Space = [], Local = ''jid''\<rparr>, Start_Attr = []\<rparr>,
      CharData (JID_String j),
      EndElement \<lparr>Space = [], Local = ''jid''\<rparr>]"

definition iq_end :: xml_Token where
  "iq_end = EndElement \<lparr>Space = ns_Client, Local = ''iq''\<rparr>"

definition assigned :: JID where
  "assigned = \<lparr>localpart = ''user'', domainpart = ''example.com'', resourcepart = ''aa11bb22''\<rparr>"

definition no_payload :: bindPayload where
  "no_payload = \<lparr>Resource = [], Bind_JID = None\<rparr>"

definition sent_request :: "xml_Token list" where
  "sent_request = sample_WrapIQ None SetIQ
     [StartElement \<lparr>Start_Name = \<lparr>Space = [], Local = ''resource''\<rparr>, Start_Attr = []\<rparr>,
      CharData ''home'',
      EndElement \<lparr>Space = [], Local = ''resource''\<rparr>]"

definition stream_end :: xml_Token where
  "stream_end = EndElement \<lparr>Space = ''http://etherx.jabber.org/streams'', Local = ''stream''\<rparr>"

definition message_start :: xml_StartElement where
  "message_start = \<lparr>Start_Name = \<lparr>Space = ns_Client, Local = ''message''\<rparr>, Start_Attr = []\<rparr>"

definition conflict :: stanza_Error where
  "conflict = \<lparr>Error_Type = ''cancel'', Condition = ''conflict'', Text = []\<rparr>"

definition register_start :: xml_StartElement where
  "register_start = \<lparr>Start_Name = \<lparr>Space = ''urn:xmpp:register:0'', Local = ''register''\<rparr>, Start_Attr = []\<rparr>"


section \<open>Registration and recovery: the Parse phase\<close>

lemma fold_insert_types:
  "fold (\<lambda>c m. insert (Challenge_Type c) m) cs S = Challenge_Type ` set cs \<union> S"
  by (induction cs arbitrary: S) auto

lemma fold_insert_strings: "fold (\<lambda>c m. insert c m) P S = set P \<union> S"
  by (induction P arbitrary: S) auto

text \<open>
  What the gate of \<open>parseFunc\<close> computes: the number of distinct types in the two lists
  together is compared with the number of entries of the local list, repeated types
  counted as often as they occur.
\<close>

lemma parseFunc_gate:
  "d start = Inr P \<Longrightarrow>
   parseFunc L d start =
     (False, IBool (card (Challenge_Type ` set L \<union> set P) \<le> length L), None)"
  by (simp add: parseFunc_def fold_insert_types fold_insert_strings Un_commute)

lemma parseFunc_decode_failure:
  "d start = Inl err \<Longrightarrow> parseFunc L d start = (False, IBool False, Some err)"
  by (simp add: parseFunc_def)

text \<open>
  When no type occurs twice in the local list, the gate is the subset test that the
  comment of lines 81 to 83 describes.
\<close>

lemma parseFunc_distinct_subset:
  assumes "distinct (map Challenge_Type L)" and "d start = Inr P"
  shows "parseFunc L d start = (False, IBool (set P \<subseteq> Challenge_Type ` set L), None)"
proof -
  let ?A = "Challenge_Type ` set L"
  have cardA: "card ?A = length L"
    using assms(1) by (metis distinct_card length_map set_map)
  have "(card (?A \<union> set P) \<le> card ?A) = (set P \<subseteq> ?A)"
  proof
    assume le: "card (?A \<union> set P) \<le> card ?A"
    have "?A \<subseteq> ?A \<union> set P" by blast
    moreover have "finite (?A \<union> set P)" by simp
    ultimately have "?A = ?A \<union> set P"
      using le by (metis card_seteq)
    then show "set P \<subseteq> ?A" by blast
  next
    assume "set P \<subseteq> ?A"
    then have "?A \<union> set P = ?A" by blast
    then show "card (?A \<union> set P) \<le> card ?A" by simp
  qed
  then show ?thesis
    using parseFunc_gate [of d start P L] assms(2) cardA by simp
qed

text \<open>
  Claim C3. The Parse phase is to report the peer as supported exactly when the
  deduplicated union of the local and the advertised challenge types is no larger than
  the number of locally supported challenge types, that is, when the peer asks for no
  type that is missing locally. With a local list that names the type \<open>a\<close> twice and a
  peer that advertises the type \<open>b\<close>, the union has two types and one type is supported
  locally, \<open>b\<close> is not among them, and \<open>parseFunc\<close> still reports the peer as supported:
  the code compares with the length of the list, not with the number of its types.
\<close>

theorem parseFunc_duplicate_local_type:
  "parseFunc [\<lparr>Challenge_Type = ''a''\<rparr>, \<lparr>Challenge_Type = ''a''\<rparr>]
     (\<lambda>start. Inr [''b'']) challengeStart = (False, IBool True, None)
   \<and> ''b'' \<notin> Challenge_Type ` set [\<lparr>Challenge_Type = ''a''\<rparr>, \<lparr>Challenge_Type = ''a''\<rparr>]
   \<and> card (Challenge_Type ` set [\<lparr>Challenge_Type = ''a''\<rparr>, \<lparr>Challenge_Type = ''a''\<rparr>]
           \<union> set [''b'']) = 2
   \<and> card (Challenge_Type ` set [\<lparr>Challenge_Type = ''a''\<rparr>, \<lparr>Challenge_Type = ''a''\<rparr>]) = 1"
  by (simp add: parseFunc_def)

text \<open>
  Claim C10. Whatever the local challenge list and whatever the decoder returns, the
  Parse phase reports the feature as not mandatory: the first component of its result
  is \<open>False\<close>.
\<close>

theorem parseFunc_never_mandatory:
  "fst (parseFunc challenges d start) = False"
  by (simp add: parseFunc_def Let_def split: sum.split)

section \<open>Registration and recovery: the Negotiate phase\<close>

text \<open>
  Claim C8. On a session without the \<open>Received\<close> bit, when the Parse phase reported the
  peer as unsupported (the value \<open>false\<close>), Negotiate returns a zero state mask, no
  replacement transport and no error.
\<close>

theorem negotiateFunc_skips_unsupported:
  "State session AND Received \<noteq> Received \<Longrightarrow>
   negotiateFunc challenges session (IBool False) = Return (0, None, None)"
  by (simp add: negotiateFunc_def)

theorem negotiateFunc_skips_unsupported_witness:
  "State \<lparr>State = Secure, origin = None, RemoteAddr = None, incoming = [],
          outgoing = \<lparr>written = [], fail_after = None\<rparr>\<rparr> AND Received \<noteq> Received
   \<and> negotiateFunc [\<lparr>Challenge_Type = ''a''\<rparr>]
        \<lparr>State = Secure, origin = None, RemoteAddr = None, incoming = [],
          outgoing = \<lparr>written = [], fail_after = None\<rparr>\<rparr> (IBool False) = Return (0, None, None)"
proof -
  have h: "State \<lparr>State = Secure, origin = None, RemoteAddr = None, incoming = [],
          outgoing = \<lparr>written = [], fail_after = None\<rparr>\<rparr> AND Received \<noteq> Received"
    by (simp add: Secure_def Received_def)
  show ?thesis
    using h negotiateFunc_skips_unsupported [OF h, of "[\<lparr>Challenge_Type = ''a''\<rparr>]"] by simp
qed

section \<open>Registration and recovery: the List phase\<close>

lemma set_first_seen: "set (first_seen S xs) = set xs - S"
  by (induction xs arbitrary: S) auto

lemma distinct_first_seen: "distinct (first_seen S xs)"
  by (induction xs arbitrary: S) (auto simp: set_first_seen)

lemma first_seen_positions:
  "first_seen S xs = [xs ! i. i \<leftarrow> [0..<length xs], xs ! i \<notin> S \<union> set (take i xs)]"
proof (induction xs arbitrary: S)
  case Nil
  show ?case by simp
next
  case (Cons x xs)
  have shift: "[(x # xs) ! i. i \<leftarrow> [0..<length (x # xs)], (x # xs) ! i \<notin> S \<union> set (take i (x # xs))]
      = (if x \<in> S then [] else [x]) @
        [xs ! i. i \<leftarrow> [0..<length xs], xs ! i \<notin> insert x S \<union> set (take i xs)]"
    by (auto simp add: upt_conv_Cons map_Suc_upt [symmetric] filter_map o_def
          simp del: upt_Suc intro!: arg_cong [where f = concat])
  show ?case
  proof (cases "x \<in> S")
    case True
    then have "insert x S = S" by blast
    with True shift Cons.IH [of S] show ?thesis by simp
  next
    case False
    with shift Cons.IH [of "insert x S"] show ?thesis by simp
  qed
qed

lemma EncodeToken_ok:
  "EncodeToken e t = (None, e1) \<Longrightarrow> written e1 = written e @ [t]"
  by (auto simp: EncodeToken_def split: option.splits prod.splits nat.splits)

lemma Flush_written: "Flush e = (err, e1) \<Longrightarrow> written e1 = written e"
  by (auto simp: Flush_def split: option.splits prod.splits nat.splits)

lemma list_challenges_written:
  "list_challenges e seen cs = (None, e') \<Longrightarrow>
   written e' = written e @ concat (map challenge_element (first_seen seen (map Challenge_Type cs)))"
proof (induction cs arbitrary: e seen)
  case Nil
  then show ?case by simp
next
  case (Cons c cs)
  show ?case
  proof (cases "Challenge_Type c \<in> seen")
    case True
    with Cons show ?thesis by simp
  next
    case False
    from Cons.prems False obtain e1 e2 e3 where
      s1: "EncodeToken e (StartElement challengeStart) = (None, e1)" and
      s2: "EncodeToken e1 (CharData (Challenge_Type c)) = (None, e2)" and
      s3: "EncodeToken e2 (End challengeStart) = (None, e3)" and
      rest: "list_challenges e3 (insert (Challenge_Type c) seen) cs = (None, e')"
      by (auto split: prod.splits option.splits)
    have "written e3 = written e @ challenge_element (Challenge_Type c)"
      using EncodeToken_ok [OF s1] EncodeToken_ok [OF s2] EncodeToken_ok [OF s3]
      by (simp add: challenge_element_def)
    with Cons.IH [OF rest] False show ?thesis by simp
  qed
qed

lemma list_challenges_never_failing:
  "fail_after e = None \<Longrightarrow>
   \<exists>e'. list_challenges e seen cs = (None, e') \<and> fail_after e' = None"
proof (induction cs arbitrary: e seen)
  case Nil
  then show ?case by simp
next
  case (Cons c cs)
  show ?case
  proof (cases "Challenge_Type c \<in> seen")
    case True
    with Cons show ?thesis by simp
  next
    case False
    let ?e3 = "e\<lparr>written := written e @ challenge_element (Challenge_Type c)\<rparr>"
    have "fail_after ?e3 = None" using Cons.prems by simp
    from Cons.IH [OF this, of "insert (Challenge_Type c) seen"] False Cons.prems
    show ?thesis by (simp add: EncodeToken_def challenge_element_def)
  qed
qed

text \<open>An encoder that never fails makes \<open>listFunc\<close> return without an error.\<close>

lemma listFunc_never_failing:
  assumes "fail_after e = None"
  shows "\<exists>e'. listFunc challenges e start = ((False, None), e')"
proof -
  let ?e1 = "e\<lparr>written := written e @ [StartElement start]\<rparr>"
  have "fail_after ?e1 = None" using assms by simp
  from list_challenges_never_failing [OF this, of "{}" challenges]
  obtain e2 where "list_challenges ?e1 {} challenges = (None, e2)" and "fail_after e2 = None"
    by blast
  then show ?thesis
    using assms by (simp add: listFunc_def EncodeToken_def Flush_def)
qed

text \<open>
  Claim C6. Whenever \<open>listFunc\<close> returns without an error, it has written the start
  element, one \<open>challenge\<close> element for each type of a list \<open>ts\<close>, and the end element,
  where \<open>ts\<close> holds the types of the supplied challenges at their first occurrences, in
  the order of the supplied list: every distinct type is there, and none twice.
\<close>

theorem listFunc_emits_each_type_once:
  assumes "listFunc challenges e start = ((req, None), e')"
  shows "\<exists>ts. written e' =
           written e @ StartElement start # concat (map challenge_element ts) @ [End start]
         \<and> ts = [map Challenge_Type challenges ! i. i \<leftarrow> [0..<length challenges],
                   map Challenge_Type challenges ! i
                     \<notin> set (take i (map Challenge_Type challenges))]
         \<and> distinct ts \<and> set ts = Challenge_Type ` set challenges"
proof -
  from assms obtain e1 e2 e3 where
    s1: "EncodeToken e (StartElement start) = (None, e1)" and
    s2: "list_challenges e1 {} challenges = (None, e2)" and
    s3: "EncodeToken e2 (End start) = (None, e3)" and
    s4: "Flush e3 = (None, e')"
    by (auto simp: listFunc_def split: prod.splits option.splits)
  let ?ts = "first_seen {} (map Challenge_Type challenges)"
  have "written e' = written e @ StartElement start # concat (map challenge_element ?ts) @ [End start]"
    using EncodeToken_ok [OF s1] list_challenges_written [OF s2] EncodeToken_ok [OF s3]
      Flush_written [OF s4] by simp
  moreover have "?ts = [map Challenge_Type challenges ! i. i \<leftarrow> [0..<length challenges],
                   map Challenge_Type challenges ! i
                     \<notin> set (take i (map Challenge_Type challenges))]"
    using first_seen_positions [of "{}" "map Challenge_Type challenges"] by simp
  moreover have "distinct ?ts" by (rule distinct_first_seen)
  moreover have "set ?ts = Challenge_Type ` set challenges"
    by (simp add: set_first_seen)
  ultimately show ?thesis by blast
qed

theorem listFunc_emits_each_type_once_witness:
  "listFunc [\<lparr>Challenge_Type = ''sms''\<rparr>, \<lparr>Challenge_Type = ''form''\<rparr>, \<lparr>Challenge_Type = ''sms''\<rparr>]
     \<lparr>written = [], fail_after = None\<rparr> register_start
   = ((False, None),
      \<lparr>written = StartElement register_start
                  # challenge_element ''sms'' @ challenge_element ''form'' @ [End register_start],
        fail_after = None\<rparr>)
   \<and> (\<exists>ts. StartElement register_start
              # challenge_element ''sms'' @ challenge_element ''form'' @ [End register_start]
            = StartElement register_start # concat (map challenge_element ts) @ [End register_start]
          \<and> ts = [''sms'', ''form''] \<and> distinct ts \<and> set ts = {''sms'', ''form''})"
proof -
  let ?cs = "[\<lparr>Challenge_Type = ''sms''\<rparr>, \<lparr>Challenge_Type = ''form''\<rparr>, \<lparr>Challenge_Type = ''sms''\<rparr>]"
  let ?e' = "\<lparr>written = StartElement register_start
                  # challenge_element ''sms'' @ challenge_element ''form'' @ [End register_start],
        fail_after = None\<rparr>"
  have h: "listFunc ?cs \<lparr>written = [], fail_after = None\<rparr> register_start = ((False, None), ?e')"
    by (simp add: listFunc_def EncodeToken_def Flush_def challenge_element_def)
  have pos: "[map Challenge_Type ?cs ! i. i \<leftarrow> [0..<length ?cs],
               map Challenge_Type ?cs ! i \<notin> set (take i (map Challenge_Type ?cs))]
             = [''sms'', ''form'']"
    by (simp add: upt_conv_Cons take_Suc_conv_app_nth del: upt_Suc)
  from listFunc_emits_each_type_once [OF h] pos
  have "\<exists>ts. StartElement register_start
              # challenge_element ''sms'' @ challenge_element ''form'' @ [End register_start]
            = StartElement register_start # concat (map challenge_element ts) @ [End register_start]
          \<and> ts = [''sms'', ''form''] \<and> distinct ts \<and> set ts = {''sms'', ''form''}"
    by auto
  with h show ?thesis by blast
qed

section \<open>Random identifiers\<close>

lemma hexdigit_lower: "hexdigit d \<in> set ''0123456789abcdef''"
proof -
  have "d mod 16 < length ''0123456789abcdef''" by simp
  then show ?thesis unfolding hexdigit_def by (rule nth_mem)
qed

lemma length_Sprintf_x: "length (Sprintf_x b) = 2 * length b"
  by (induction b) (simp_all add: Sprintf_x_def hex_byte_def)

lemma set_Sprintf_x: "set (Sprintf_x b) \<subseteq> set ''0123456789abcdef''"
proof -
  define S where "S = set ''0123456789abcdef''"
  have hd: "hexdigit d \<in> S" for d
    unfolding S_def by (rule hexdigit_lower)
  have "set (hex_byte x) \<subseteq> S" for x
    unfolding hex_byte_def using hd [of "unat x div 16"] hd [of "unat x mod 16"] by simp
  then have "set (Sprintf_x b) \<subseteq> S"
    unfolding Sprintf_x_def by (induction b) auto
  then show ?thesis unfolding S_def .
qed

lemma rand_Read_length: "rand_Read k src = Inr (b, src') \<Longrightarrow> length b = k"
  by (auto simp: rand_Read_def split: entropy.splits if_splits)

lemma buffer_size:
  assumes "0 \<le> (n::int)"
  shows "0 \<le> n sdiv 2 + (n AND 1)" and "n \<le> 2 * (n sdiv 2 + (n AND 1))"
proof -
  have a: "n AND 1 = n mod 2" by (simp add: and_one_eq)
  have d: "n sdiv 2 = n div 2" using assms by (simp add: signed_divide_int_def sgn_if)
  show "0 \<le> n sdiv 2 + (n AND 1)" using assms a d by simp
  show "n \<le> 2 * (n sdiv 2 + (n AND 1))" using a d by presburger
qed

text \<open>
  Claim C9. For a length \<open>n\<close> that is not negative: when the read from the entropy
  source succeeds, \<open>RandomID\<close> returns a string of exactly \<open>n\<close> characters, all of them
  lowercase hexadecimal digits; when the read fails, it panics with the error of the
  read.
\<close>

theorem RandomID_hex_of_length:
  assumes "0 \<le> n"
  shows "(\<forall>b src'. rand_Read (nat (n sdiv 2 + (n AND 1))) src = Inr (b, src') \<longrightarrow>
            (\<exists>s. RandomID n src = Return (s, src') \<and> int (length s) = n
                 \<and> set s \<subseteq> set ''0123456789abcdef''))
       \<and> (\<forall>err. rand_Read (nat (n sdiv 2 + (n AND 1))) src = Inl err \<longrightarrow>
            RandomID n src = Panic (PanicError err))"
proof (intro conjI allI impI)
  fix b src'
  assume rd: "rand_Read (nat (n sdiv 2 + (n AND 1))) src = Inr (b, src')"
  have len: "int (length (Sprintf_x b)) = 2 * (n sdiv 2 + (n AND 1))"
    using rand_Read_length [OF rd] buffer_size(1) [OF assms] by (simp add: length_Sprintf_x)
  have fits: "n \<le> int (length (Sprintf_x b))"
    using len buffer_size(2) [OF assms] by simp
  have ret: "RandomID n src = Return (take (nat n) (Sprintf_x b), src')"
    using rd assms fits buffer_size(1) [OF assms] by (simp add: RandomID_def Let_def)
  have "int (length (take (nat n) (Sprintf_x b))) = n"
    using fits assms by simp
  moreover have "set (take (nat n) (Sprintf_x b)) \<subseteq> set ''0123456789abcdef''"
    using set_take_subset set_Sprintf_x by (rule subset_trans)
  ultimately show "\<exists>s. RandomID n src = Return (s, src') \<and> int (length s) = n
      \<and> set s \<subseteq> set ''0123456789abcdef''"
    using ret by blast
next
  fix err
  assume "rand_Read (nat (n sdiv 2 + (n AND 1))) src = Inl err"
  then show "RandomID n src = Panic (PanicError err)"
    using buffer_size(1) [OF assms] by (simp add: RandomID_def Let_def)
qed

theorem RandomID_hex_of_length_witness:
  "(0::int) \<le> 5
   \<and> rand_Read (nat (5 sdiv 2 + (5 AND 1))) (Pool [0xde, 0xad, 0xbe, 0xef])
       = Inr ([0xde, 0xad, 0xbe], Pool [0xef])
   \<and> (\<exists>s. RandomID 5 (Pool [0xde, 0xad, 0xbe, 0xef]) = Return (s, Pool [0xef])
          \<and> int (length s) = 5 \<and> set s \<subseteq> set ''0123456789abcdef'')
   \<and> rand_Read (nat (5 sdiv 2 + (5 AND 1))) (Broken (OtherError ''no entropy''))
       = Inl (OtherError ''no entropy'')
   \<and> RandomID 5 (Broken (OtherError ''no entropy'')) = Panic (PanicError (OtherError ''no entropy''))"
proof -
  have h: "(0::int) \<le> 5" by simp
  have ok: "rand_Read (nat (5 sdiv 2 + (5 AND 1))) (Pool [0xde, 0xad, 0xbe, 0xef])
       = Inr ([0xde, 0xad, 0xbe], Pool [0xef])"
    by (simp add: rand_Read_def signed_divide_int_def)
  have bad: "rand_Read (nat (5 sdiv 2 + (5 AND 1))) (Broken (OtherError ''no entropy''))
       = Inl (OtherError ''no entropy'')"
    by (simp add: rand_Read_def)
  from RandomID_hex_of_length [OF h, of "Pool [0xde, 0xad, 0xbe, 0xef]"] ok
  have a: "\<exists>s. RandomID 5 (Pool [0xde, 0xad, 0xbe, 0xef]) = Return (s, Pool [0xef])
          \<and> int (length s) = 5 \<and> set s \<subseteq> set ''0123456789abcdef''"
    by blast
  from RandomID_hex_of_length [OF h, of "Broken (OtherError ''no entropy'')"] bad
  have b: "RandomID 5 (Broken (OtherError ''no entropy'')) = Panic (PanicError (OtherError ''no entropy''))"
    by blast
  from h ok a bad b show ?thesis by blast
qed

text \<open>A negative length makes \<open>RandomID\<close> panic.\<close>

lemma RandomID_negative: "n < 0 \<Longrightarrow> \<exists>p. RandomID n src = Panic p"
  by (auto simp: RandomID_def Let_def split: sum.splits)

section \<open>Resource binding: evaluation on the sample exchanges\<close>

lemmas decoder_defs =
  Decoder_StartElement_def translate_def translate_Space_def record_ns_def
  xmlnsPrefix_def xmlPrefix_def xmlURL_def

lemmas sample_defs =
  sample_deps_def sample_session_def sample_DecodeElement_def sample_WrapIQ_def iq_start_def
  iq_end_def ns_Client_def IQType_String_def xmlstream_Wrap_def End_def
  Secure_def Authn_def Ready_def Received_def

lemma RandomID_sample:
  "RandomID 4 (Pool [0xaa, 0x11, 0xbb]) = Return (''aa11'', Pool [0xbb])"
  by (simp add: RandomID_def rand_Read_def Sprintf_x_def hex_byte_def hexdigit_def
      signed_divide_int_def)

lemmas eval_defs =
  sample_defs bind_request_def Resourcepart_def bindIQ_WriteXML_def
  bindIQ_TokenReader_def bindPayload_TokenReader_def EncodeToken_def read_iq_def
  Decoder_Token_def Session_Token_def decoder_defs

section \<open>Resource binding: the client branch\<close>

text \<open>Writing to the stream and reading from it leave the rest of the session alone.\<close>

lemma bindIQ_WriteXML_frame:
  "bindIQ_WriteXML dp biq s = (err, s1) \<Longrightarrow>
   origin s1 = origin s \<and> State s1 = State s \<and> incoming s1 = incoming s
   \<and> RemoteAddr s1 = RemoteAddr s"
  by (auto simp: bindIQ_WriteXML_def split: prod.splits)

lemma read_iq_frame:
  "read_iq dp s = (r, s1) \<Longrightarrow>
   origin s1 = origin s \<and> State s1 = State s \<and> outgoing s1 = outgoing s
   \<and> RemoteAddr s1 = RemoteAddr s"
  by (auto simp: read_iq_def Decoder_Token_def Session_Token_def
      split: prod.splits list.splits sum.splits xml_Token.splits if_splits)

text \<open>
  Claim C1. On a session without the \<open>Received\<close> bit, once the request with the
  identifier \<open>reqID\<close> is written and a response IQ is read and decoded whose \<open>id\<close> is not
  \<open>reqID\<close>, Negotiate returns the stream error undefined-condition with a zero state
  mask, and the origin address of the session is the one it had before.
\<close>

theorem client_rejects_mismatched_id:
  assumes "State session AND Received \<noteq> Received"
    and "RandomID (IDLen dp) src = Return (reqID, src')"
    and "bindIQ_WriteXML dp (bind_request reqID session) session = (None, s1)"
    and "read_iq dp s1 = (Inr (start, resp), s2)"
    and "ID (IQ resp) \<noteq> reqID"
  shows "bind_Negotiate dp server src session data =
           Return ((0, None, Some (StreamError UndefinedCondition)), s2, src')
         \<and> origin s2 = origin session"
proof -
  have "negotiate_client dp src session =
          Return ((0, None, Some (StreamError UndefinedCondition)), s2, src')"
    using assms(2-5) by (simp add: negotiate_client_def)
  moreover have "origin s2 = origin session"
    using bindIQ_WriteXML_frame [OF assms(3)] read_iq_frame [OF assms(4)] by simp
  ultimately show ?thesis
    using assms(1) by (simp add: bind_Negotiate_def)
qed

theorem client_rejects_mismatched_id_witness:
  "bind_Negotiate (sample_deps \<lparr>Resource = [], Bind_JID = Some assigned\<rparr> None) None
     (Pool [0xaa, 0x11, 0xbb])
     (sample_session (Secure OR Authn) [StartElement (iq_start ''Y'' ''result''), iq_end]) INil
   = Return ((0, None, Some (StreamError UndefinedCondition)),
       (sample_session (Secure OR Authn) [])
          \<lparr>outgoing := \<lparr>written = sent_request, fail_after = None\<rparr>\<rparr>,
       Pool [0xbb])
   \<and> origin ((sample_session (Secure OR Authn) [])
          \<lparr>outgoing := \<lparr>written = sent_request, fail_after = None\<rparr>\<rparr>)
     = Some \<lparr>localpart = ''user'', domainpart = ''example.com'', resourcepart = ''home''\<rparr>"
proof -
  let ?dp = "sample_deps \<lparr>Resource = [], Bind_JID = Some assigned\<rparr> None"
  let ?s = "sample_session (Secure OR Authn) [StartElement (iq_start ''Y'' ''result''), iq_end]"
  let ?s1 = "?s\<lparr>outgoing := \<lparr>written = sent_request, fail_after = None\<rparr>\<rparr>"
  let ?s2 = "(sample_session (Secure OR Authn) [])
          \<lparr>outgoing := \<lparr>written = sent_request, fail_after = None\<rparr>\<rparr>"
  let ?resp = "\<lparr>IQ = \<lparr>ID = ''Y'', To = None, From = None, IQ_Type = ResultIQ\<rparr>,
               Bind = \<lparr>Resource = [], Bind_JID = Some assigned\<rparr>, Err = None\<rparr>"
  have h1: "State ?s AND Received \<noteq> Received"
    by (simp add: sample_defs)
  have h2: "RandomID (IDLen ?dp) (Pool [0xaa, 0x11, 0xbb]) = Return (''aa11'', Pool [0xbb])"
    using RandomID_sample by (simp add: sample_deps_def)
  have h3: "bindIQ_WriteXML ?dp (bind_request ''aa11'' ?s) ?s = (None, ?s1)"
    by (simp add: eval_defs sent_request_def)
  have h4: "read_iq ?dp ?s1 = (Inr (iq_start ''Y'' ''result'', ?resp), ?s2)"
    by (simp add: eval_defs)
  have h5: "ID (IQ ?resp) \<noteq> ''aa11''" by simp
  have "origin ?s = Some \<lparr>localpart = ''user'', domainpart = ''example.com'', resourcepart = ''home''\<rparr>"
    by (simp add: sample_session_def)
  then show ?thesis
    using client_rejects_mismatched_id [OF h1 h2 h3 h4 h5, of None INil] by simp
qed

text \<open>
  Claim C2. On a session without the \<open>Received\<close> bit, when the response IQ carries the
  identifier of the request and the type \<open>result\<close>, Negotiate returns the state mask
  \<open>Ready\<close> and no error, and the origin address of the session is the address of the
  bind payload of the response, whatever it is.
\<close>

theorem client_adopts_server_jid:
  assumes "State session AND Received \<noteq> Received"
    and "RandomID (IDLen dp) src = Return (reqID, src')"
    and "bindIQ_WriteXML dp (bind_request reqID session) session = (None, s1)"
    and "read_iq dp s1 = (Inr (start, resp), s2)"
    and "ID (IQ resp) = reqID"
    and "IQ_Type (IQ resp) = ResultIQ"
  shows "bind_Negotiate dp server src session data =
           Return ((Ready, None, None), s2\<lparr>origin := Bind_JID (Bind resp)\<rparr>, src')
         \<and> origin (s2\<lparr>origin := Bind_JID (Bind resp)\<rparr>) = Bind_JID (Bind resp)"
proof -
  have "negotiate_client dp src session =
          Return ((Ready, None, None), s2\<lparr>origin := Bind_JID (Bind resp)\<rparr>, src')"
    using assms(2-6) by (simp add: negotiate_client_def)
  then show ?thesis
    using assms(1) by (simp add: bind_Negotiate_def)
qed

theorem client_adopts_server_jid_witness:
  "bind_Negotiate (sample_deps \<lparr>Resource = [], Bind_JID = Some assigned\<rparr> None) None
     (Pool [0xaa, 0x11, 0xbb])
     (sample_session (Secure OR Authn) [StartElement (iq_start ''aa11'' ''result''), iq_end]) INil
   = Return ((Ready, None, None),
       (sample_session (Secure OR Authn) [])
          \<lparr>outgoing := \<lparr>written = sent_request, fail_after = None\<rparr>, origin := Some assigned\<rparr>,
       Pool [0xbb])"
proof -
  let ?dp = "sample_deps \<lparr>Resource = [], Bind_JID = Some assigned\<rparr> None"
  let ?s = "sample_session (Secure OR Authn) [StartElement (iq_start ''aa11'' ''result''), iq_end]"
  let ?s1 = "?s\<lparr>outgoing := \<lparr>written = sent_request, fail_after = None\<rparr>\<rparr>"
  let ?s2 = "(sample_session (Secure OR Authn) [])
          \<lparr>outgoing := \<lparr>written = sent_request, fail_after = None\<rparr>\<rparr>"
  let ?resp = "\<lparr>IQ = \<lparr>ID = ''aa11'', To = None, From = None, IQ_Type = ResultIQ\<rparr>,
               Bind = \<lparr>Resource = [], Bind_JID = Some assigned\<rparr>, Err = None\<rparr>"
  have h1: "State ?s AND Received \<noteq> Received"
    by (simp add: sample_defs)
  have h2: "RandomID (IDLen ?dp) (Pool [0xaa, 0x11, 0xbb]) = Return (''aa11'', Pool [0xbb])"
    using RandomID_sample by (simp add: sample_deps_def)
  have h3: "bindIQ_WriteXML ?dp (bind_request ''aa11'' ?s) ?s = (None, ?s1)"
    by (simp add: eval_defs sent_request_def)
  have h4: "read_iq ?dp ?s1 = (Inr (iq_start ''aa11'' ''result'', ?resp), ?s2)"
    by (simp add: eval_defs)
  have h5: "ID (IQ ?resp) = ''aa11''" by simp
  have h6: "IQ_Type (IQ ?resp) = ResultIQ" by simp
  show ?thesis
    using client_adopts_server_jid [OF h1 h2 h3 h4 h5 h6, of None INil]
    by (simp add: sample_session_def)
qed

section \<open>Resource binding: the server branch\<close>

text \<open>
  The decoder's translation at work: an \<open>iq\<close> start element that declares the client
  name space as its default is returned with that name space in its name, and is read
  as an IQ; a name that already carries the name space is left as it is.
\<close>

lemma Decoder_StartElement_default_namespace:
  "Start_Name (Decoder_StartElement
     \<lparr>Start_Name = \<lparr>Space = [], Local = ''iq''\<rparr>,
      Start_Attr = [\<lparr>Attr_Name = \<lparr>Space = [], Local = ''xmlns''\<rparr>, Attr_Value = ns_Client\<rparr>]\<rparr>)
   = \<lparr>Space = ns_Client, Local = ''iq''\<rparr>"
  by (simp add: decoder_defs ns_Client_def)

lemma Decoder_StartElement_iq_start:
  "Decoder_StartElement (iq_start i typ) = iq_start i typ"
  by (simp add: decoder_defs iq_start_def ns_Client_def)

text \<open>
  An end element read first is refused by the decoder: Negotiate returns the syntax
  error of \<open>d.Token()\<close> (line 118), in either branch before anything else is read, and
  in the server branch with nothing written.
\<close>

lemma server_unmatched_end_element:
  assumes "State session AND Received = Received"
    and "Session_Token session = (Inr (EndElement name), s1)"
  shows "bind_Negotiate dp server src session data =
           Return ((0, None,
                    Some (SyntaxError (''unexpected end element </'' @ Local name @ ''>''))),
                   s1, src)
         \<and> outgoing s1 = outgoing session"
proof -
  have "read_iq dp session =
      (Inl (SyntaxError (''unexpected end element </'' @ Local name @ ''>'')), s1)"
    using assms(2) by (simp add: read_iq_def Decoder_Token_def)
  then have "negotiate_server dp server src session =
      Return ((0, None, Some (SyntaxError (''unexpected end element </'' @ Local name @ ''>''))),
              s1, src)"
    by (simp add: negotiate_server_def)
  moreover have "outgoing s1 = outgoing session"
    using assms(2) by (auto simp: Session_Token_def split: list.splits)
  ultimately show ?thesis
    using assms(1) by (simp add: bind_Negotiate_def)
qed

text \<open>
  Claim C7, as stated: on a session with the \<open>Received\<close> bit, a token that is not a start
  element makes Negotiate return the stream error bad-format. The end element of the
  stream is not a start element, and Negotiate returns the decoder's syntax error for
  it, not bad-format.
\<close>

theorem server_end_element_not_bad_format:
  "bind_Negotiate (sample_deps no_payload None) None (Pool [])
     (sample_session (Secure OR Authn OR Received) [stream_end]) INil
   = Return ((0, None, Some (SyntaxError ''unexpected end element </stream>'')),
             sample_session (Secure OR Authn OR Received) [], Pool [])
   \<and> bind_Negotiate (sample_deps no_payload None) None (Pool [])
     (sample_session (Secure OR Authn OR Received) [stream_end]) INil
   \<noteq> Return ((0, None, Some (StreamError BadFormat)),
             sample_session (Secure OR Authn OR Received) [], Pool [])"
  by (simp add: bind_Negotiate_def negotiate_server_def read_iq_def Decoder_Token_def
      Session_Token_def sample_session_def stream_end_def Secure_def Authn_def Received_def)

text \<open>
  Claim C7, amended. On a session with the \<open>Received\<close> bit, when the token read from the
  stream is neither a start element nor an end element, or is a start element whose
  name, as the decoder translates it, is not \<open>iq\<close> in the client namespace, Negotiate
  returns the stream error bad-format with a zero state mask, and nothing is written
  to the stream.
\<close>

theorem server_rejects_non_iq:
  assumes "State session AND Received = Received"
    and "Session_Token session = (Inr tok, s1)"
    and "\<forall>name. tok \<noteq> EndElement name"
    and "\<forall>start. tok = StartElement start \<longrightarrow>
           Start_Name (Decoder_StartElement start) \<noteq> \<lparr>Space = ns_Client, Local = ''iq''\<rparr>"
  shows "bind_Negotiate dp server src session data =
           Return ((0, None, Some (StreamError BadFormat)), s1, src)
         \<and> outgoing s1 = outgoing session"
proof -
  have "read_iq dp session = (Inl (StreamError BadFormat), s1)"
    using assms(2,3,4) by (auto simp: read_iq_def Decoder_Token_def split: xml_Token.splits)
  then have "negotiate_server dp server src session =
      Return ((0, None, Some (StreamError BadFormat)), s1, src)"
    by (simp add: negotiate_server_def)
  moreover have "outgoing s1 = outgoing session"
    using assms(2) by (auto simp: Session_Token_def split: list.splits)
  ultimately show ?thesis
    using assms(1) by (simp add: bind_Negotiate_def)
qed

theorem server_rejects_non_iq_witness:
  "bind_Negotiate (sample_deps no_payload None) None (Pool [])
     (sample_session (Secure OR Authn OR Received) [StartElement message_start]) INil
   = Return ((0, None, Some (StreamError BadFormat)),
             sample_session (Secure OR Authn OR Received) [], Pool [])
   \<and> outgoing (sample_session (Secure OR Authn OR Received) []) = \<lparr>written = [], fail_after = None\<rparr>
   \<and> bind_Negotiate (sample_deps no_payload None) None (Pool [])
     (sample_session (Secure OR Authn OR Received) [CharData ''hello'']) INil
   = Return ((0, None, Some (StreamError BadFormat)),
             sample_session (Secure OR Authn OR Received) [], Pool [])"
proof -
  let ?dp = "sample_deps no_payload None"
  let ?s = "sample_session (Secure OR Authn OR Received) [StartElement message_start]"
  let ?t = "sample_session (Secure OR Authn OR Received) [CharData ''hello'']"
  let ?s1 = "sample_session (Secure OR Authn OR Received) []"
  have r: "State ?s AND Received = Received" "State ?t AND Received = Received"
    by (simp_all add: sample_defs)
  have tok: "Session_Token ?s = (Inr (StartElement message_start), ?s1)"
    "Session_Token ?t = (Inr (CharData ''hello''), ?s1)"
    by (simp_all add: Session_Token_def sample_session_def)
  have e1: "\<forall>name. StartElement message_start \<noteq> EndElement name" by simp
  have e2: "\<forall>name. CharData ''hello'' \<noteq> EndElement name" by simp
  have n1: "\<forall>start. StartElement message_start = StartElement start \<longrightarrow>
           Start_Name (Decoder_StartElement start) \<noteq> \<lparr>Space = ns_Client, Local = ''iq''\<rparr>"
    by (simp add: message_start_def decoder_defs ns_Client_def)
  have n2: "\<forall>start. CharData ''hello'' = StartElement start \<longrightarrow>
           Start_Name (Decoder_StartElement start) \<noteq> \<lparr>Space = ns_Client, Local = ''iq''\<rparr>"
    by simp
  have "outgoing ?s = \<lparr>written = [], fail_after = None\<rparr>"
    by (simp add: sample_session_def)
  then show ?thesis
    using server_rejects_non_iq [OF r(1) tok(1) e1 n1, of ?dp None "Pool []" INil]
      server_rejects_non_iq [OF r(2) tok(2) e2 n2, of ?dp None "Pool []" INil]
    by simp
qed

lemma xmlstream_Copy_never_failing:
  "fail_after w = None \<Longrightarrow>
   xmlstream_Copy w ts = (None, w\<lparr>written := written w @ ts\<rparr>)"
  by (induction ts arbitrary: w) (simp_all add: EncodeToken_def)

text \<open>
  Claim C5. On a session with the \<open>Received\<close> bit and a decoded request, when the
  configured allocation function returns an error: a stanza error held by value is
  written to the stream inside the response IQ, and what Negotiate returns is the
  outcome of that write, which is no error on a stream that accepts the tokens; any
  other error is returned by Negotiate and nothing is written.
\<close>

theorem server_allocation_errors:
  assumes "State session AND Received = Received"
    and "read_iq dp session = (Inr (start, resReq), s1)"
    and "f (RemoteAddr s1) (Resource (Bind resReq)) = Inl err"
  shows "(\<forall>e. err = StanzaError e \<longrightarrow>
            bind_Negotiate dp (Some f) src session data =
              Return ((0, None,
                       fst (xmlstream_Copy (outgoing session)
                              (WrapIQ dp (From (IQ resReq)) ResultIQ (Error_TokenReader dp e)))),
                      s1\<lparr>outgoing :=
                           snd (xmlstream_Copy (outgoing session)
                                  (WrapIQ dp (From (IQ resReq)) ResultIQ
                                     (Error_TokenReader dp e)))\<rparr>,
                      src)
            \<and> (fail_after (outgoing session) = None \<longrightarrow>
                 xmlstream_Copy (outgoing session)
                   (WrapIQ dp (From (IQ resReq)) ResultIQ (Error_TokenReader dp e)) =
                 (None, (outgoing session)
                    \<lparr>written := written (outgoing session)
                       @ WrapIQ dp (From (IQ resReq)) ResultIQ (Error_TokenReader dp e)\<rparr>)))
       \<and> ((\<forall>e. err \<noteq> StanzaError e) \<longrightarrow>
            bind_Negotiate dp (Some f) src session data = Return ((0, None, Some err), s1, src)
            \<and> outgoing s1 = outgoing session)"
proof (intro conjI allI impI)
  fix e
  assume e: "err = StanzaError e"
  let ?toks = "WrapIQ dp (From (IQ resReq)) ResultIQ (Error_TokenReader dp e)"
  have out: "outgoing s1 = outgoing session"
    using read_iq_frame [OF assms(2)] by simp
  have "negotiate_server dp (Some f) src session =
      Return ((0, None, fst (xmlstream_Copy (outgoing session) ?toks)),
              s1\<lparr>outgoing := snd (xmlstream_Copy (outgoing session) ?toks)\<rparr>, src)"
    using assms(2,3) e out
    by (simp add: negotiate_server_def allocate_def bindIQ_WriteXML_def bindIQ_TokenReader_def
        split: prod.splits)
  then show "bind_Negotiate dp (Some f) src session data =
      Return ((0, None, fst (xmlstream_Copy (outgoing session) ?toks)),
              s1\<lparr>outgoing := snd (xmlstream_Copy (outgoing session) ?toks)\<rparr>, src)"
    using assms(1) by (simp add: bind_Negotiate_def)
next
  fix e
  assume "fail_after (outgoing session) = None"
  then show "xmlstream_Copy (outgoing session)
       (WrapIQ dp (From (IQ resReq)) ResultIQ (Error_TokenReader dp e)) =
     (None, (outgoing session)
        \<lparr>written := written (outgoing session)
           @ WrapIQ dp (From (IQ resReq)) ResultIQ (Error_TokenReader dp e)\<rparr>)"
    by (rule xmlstream_Copy_never_failing)
next
  assume other: "\<forall>e. err \<noteq> StanzaError e"
  have "negotiate_server dp (Some f) src session = Return ((0, None, Some err), s1, src)"
    using assms(2,3) other
    by (cases err) (simp_all add: negotiate_server_def allocate_def)
  then show "bind_Negotiate dp (Some f) src session data = Return ((0, None, Some err), s1, src)"
    using assms(1) by (simp add: bind_Negotiate_def)
next
  show "outgoing s1 = outgoing session"
    using read_iq_frame [OF assms(2)] by simp
qed

theorem server_allocation_errors_witness:
  "bind_Negotiate (sample_deps \<lparr>Resource = ''home'', Bind_JID = None\<rparr> None)
     (Some (\<lambda>addr resource. Inl (StanzaError conflict))) (Pool [])
     (sample_session (Secure OR Authn OR Received) [StartElement (iq_start ''X'' ''set''), iq_end]) INil
   = Return ((0, None, None),
       (sample_session (Secure OR Authn OR Received) [])
         \<lparr>outgoing := \<lparr>written = sample_WrapIQ None ResultIQ
              [StartElement \<lparr>Start_Name = \<lparr>Space = [], Local = ''error''\<rparr>, Start_Attr = []\<rparr>,
               CharData ''conflict'',
               EndElement \<lparr>Space = [], Local = ''error''\<rparr>],
            fail_after = None\<rparr>\<rparr>,
       Pool [])
   \<and> bind_Negotiate (sample_deps \<lparr>Resource = ''home'', Bind_JID = None\<rparr> None)
     (Some (\<lambda>addr resource. Inl (OtherError ''database down''))) (Pool [])
     (sample_session (Secure OR Authn OR Received) [StartElement (iq_start ''X'' ''set''), iq_end]) INil
   = Return ((0, None, Some (OtherError ''database down'')),
       sample_session (Secure OR Authn OR Received) [], Pool [])"
proof -
  let ?dp = "sample_deps \<lparr>Resource = ''home'', Bind_JID = None\<rparr> None"
  let ?s = "sample_session (Secure OR Authn OR Received) [StartElement (iq_start ''X'' ''set''), iq_end]"
  let ?s1 = "sample_session (Secure OR Authn OR Received) []"
  let ?req = "\<lparr>IQ = \<lparr>ID = ''X'', To = None, From = None, IQ_Type = SetIQ\<rparr>,
               Bind = \<lparr>Resource = ''home'', Bind_JID = None\<rparr>, Err = None\<rparr>"
  let ?f = "\<lambda>(addr :: JID option) (resource :: string). (Inl (StanzaError conflict) :: error + JID option)"
  let ?g = "\<lambda>(addr :: JID option) (resource :: string). (Inl (OtherError ''database down'') :: error + JID option)"
  have h1: "State ?s AND Received = Received"
    by (simp add: sample_defs)
  have h2: "read_iq ?dp ?s = (Inr (iq_start ''X'' ''set'', ?req), ?s1)"
    by (simp add: eval_defs)
  have h3: "?f (RemoteAddr ?s1) (Resource (Bind ?req)) = Inl (StanzaError conflict)" by simp
  have h4: "?g (RemoteAddr ?s1) (Resource (Bind ?req)) = Inl (OtherError ''database down'')" by simp
  have w: "fail_after (outgoing ?s) = None" by (simp add: sample_session_def)
  have o: "\<forall>e. OtherError ''database down'' \<noteq> StanzaError e" by simp
  note a = server_allocation_errors [of ?s ?dp "iq_start ''X'' ''set''" ?req ?s1 ?f
      "StanzaError conflict" "Pool []" INil, OF h1 h2 h3]
  note b = server_allocation_errors [of ?s ?dp "iq_start ''X'' ''set''" ?req ?s1 ?g
      "OtherError ''database down''" "Pool []" INil, OF h1 h2 h4]
  have a': "bind_Negotiate ?dp (Some ?f) (Pool []) ?s INil =
      Return ((0, None, None),
        ?s1\<lparr>outgoing := (outgoing ?s)\<lparr>written := written (outgoing ?s)
            @ WrapIQ ?dp (From (IQ ?req)) ResultIQ (Error_TokenReader ?dp conflict)\<rparr>\<rparr>, Pool [])"
    using a w by simp
  have b': "bind_Negotiate ?dp (Some ?g) (Pool []) ?s INil =
      Return ((0, None, Some (OtherError ''database down'')), ?s1, Pool [])"
    using b o by blast
  show ?thesis
    using a' b' by (simp add: sample_deps_def sample_session_def conflict_def xmlstream_Wrap_def End_def)
qed

text \<open>
  Claim C4. The response of the server is to carry the \<open>id\<close> of the request. The
  response structure is built with that \<open>id\<close> (line 149), but \<open>bindIQ.TokenReader\<close> hands
  only the recipient and the type to \<open>WrapIQ\<close>: for every request identifier \<open>i\<close> and
  every \<open>WrapIQ\<close>, the tokens written for the request are the same, and \<open>i\<close> is not among
  the arguments they are computed from.
\<close>

theorem server_response_leaves_out_request_id:
  "bind_Negotiate (dp\<lparr>DecodeElement := sample_DecodeElement \<lparr>Resource = ''home'', Bind_JID = None\<rparr> None\<rparr>)
     (Some (\<lambda>addr resource. Inr (Some assigned))) src
     (sample_session (Secure OR Authn OR Received) [StartElement (iq_start i ''set''), iq_end]) data
   = Return ((0, None, None),
       (sample_session (Secure OR Authn OR Received) [])
         \<lparr>outgoing := \<lparr>written = WrapIQ dp None ResultIQ (jid_element assigned),
                        fail_after = None\<rparr>\<rparr>,
       src)"
  by (simp add: bind_Negotiate_def negotiate_server_def read_iq_def Decoder_Token_def
      Session_Token_def decoder_defs
      allocate_def bindIQ_WriteXML_def bindIQ_TokenReader_def bindPayload_TokenReader_def
      xmlstream_Copy_never_failing jid_element_def sample_session_def sample_DecodeElement_def
      iq_start_def iq_end_def ns_Client_def xmlstream_Wrap_def End_def
      Secure_def Authn_def Received_def)

text \<open>The serialisation of a \<open>bindIQ\<close> does not depend on its \<open>ID\<close> or its \<open>From\<close>.\<close>

lemma bindIQ_TokenReader_ignores_ID_From:
  "bindIQ_TokenReader dp (biq\<lparr>IQ := (IQ biq)\<lparr>ID := i, From := a\<rparr>\<rparr>) = bindIQ_TokenReader dp biq"
  by (simp add: bindIQ_TokenReader_def split: option.split)

end
